theory Spec2Isabelle
  imports Complex_Main "HOL-Library.AList"
begin

section \<open>Python values, exceptions and logging\<close>

text \<open>
  The plugins pass dynamically typed Python values around. A value is one of the shapes
  the modelled code inspects. Python floats are idealised as rationals: true division
  yields the exact quotient, which is the IEEE result whenever that quotient is
  representable (as for \<open>7200 / 3600\<close>); rounding and overflow are not modelled.
  A dict is an association list in iteration order.
\<close>

datatype val =
    VNone
  | VBool bool
  | VInt int
  | VFloat rat
  | VStr string
  | VList "val list"
  | VDict "(string \<times> val) list"

text \<open>
  Exceptions are values: a class and a message. \<open>KeyError\<close> and \<open>IndexError\<close> are
  subclasses of \<open>LookupError\<close> in Python, so \<open>except LookupError\<close> catches all three.
\<close>

datatype exc_class =
    LookupError
  | KeyError
  | IndexError
  | ConnectionError
  | TypeError
  | PluginError
  | OtherError

datatype exn = Exn (cls: exc_class) (msg: string)

fun is_LookupError :: "exn \<Rightarrow> bool" where
  "is_LookupError (Exn LookupError m) = True"
| "is_LookupError (Exn KeyError m) = True"
| "is_LookupError (Exn IndexError m) = True"
| "is_LookupError (Exn c m) = False"

datatype level = DEBUG | INFO | WARNING | ERROR

type_synonym log = "(level \<times> string) list"

definition bind_exn :: "exn + 'a \<Rightarrow> ('a \<Rightarrow> exn + 'b) \<Rightarrow> exn + 'b" where
  "bind_exn r f = (case r of Inl e \<Rightarrow> Inl e | Inr x \<Rightarrow> f x)"

section \<open>deluge2.py: label formatting\<close>










section \<open>deluge2.py: mapping a torrent status dict onto an entry\<close>

text \<open>
  An entry is a mapping from field names to values, mutated by direct assignment
  (\<open>entry[name] = value\<close>).
\<close>

type_synonym entry = "string \<rightharpoonup> val"

text \<open>
  A value of \<open>settings_map\<close> is either a field name or a tuple of a field name and a
  format function. A format function may raise, so it returns a sum.
\<close>

datatype flexget_key = Name string | Tuple string "val \<Rightarrow> exn + val"

text \<open>
  \<open>x / n\<close> under \<open>from __future__ import division\<close>, for the non-zero integer
  constants of the tables: defined on numbers (a bool is an int), \<open>TypeError\<close> otherwise.
\<close>

fun truediv :: "val \<Rightarrow> int \<Rightarrow> exn + val" where
  "truediv (VInt i) n = Inr (VFloat (of_int i / of_int n))"
| "truediv (VFloat r) n = Inr (VFloat (r / of_int n))"
| "truediv (VBool b) n = Inr (VFloat ((if b then 1 else 0) / of_int n))"
| "truediv v n = Inl (Exn TypeError ''unsupported operand type(s) for /'')"

text \<open>\<open>f['path']\<close>: a key lookup on a dict, \<open>TypeError\<close> on anything else.\<close>

fun subscript_path :: "val \<Rightarrow> exn + val" where
  "subscript_path (VDict d) =
     (case map_of d ''path'' of None \<Rightarrow> Inl (Exn KeyError ''path'') | Some p \<Rightarrow> Inr p)"
| "subscript_path (VStr s) = Inl (Exn TypeError ''string indices must be integers'')"
| "subscript_path (VList l) = Inl (Exn TypeError ''list indices must be integers'')"
| "subscript_path v = Inl (Exn TypeError ''object is not subscriptable'')"

text \<open>Iterating a value: a list gives its elements, a dict its keys, a string its characters.\<close>

fun iterate :: "val \<Rightarrow> exn + val list" where
  "iterate (VList xs) = Inr xs"
| "iterate (VDict d) = Inr (map (\<lambda>kv. VStr (fst kv)) d)"
| "iterate (VStr s) = Inr (map (\<lambda>c. VStr [c]) s)"
| "iterate v = Inl (Exn TypeError ''object is not iterable'')"

text \<open>A list comprehension \<open>[g(f) for f in fs]\<close>: the first exception ends it.\<close>

fun comprehension :: "(val \<Rightarrow> exn + val) \<Rightarrow> val list \<Rightarrow> exn + val list" where
  "comprehension g [] = Inr []"
| "comprehension g (f # fs) =
     bind_exn (g f) (\<lambda>x. bind_exn (comprehension g fs) (\<lambda>xs. Inr (x # xs)))"

text \<open>The three kinds of format function of the tables.\<close>

definition hours :: "val \<Rightarrow> exn + val" where
  \<comment> \<open>\<open>lambda time: time / 3600\<close>\<close>
  "hours time = truediv time 3600"

definition megabytes :: "val \<Rightarrow> exn + val" where
  \<comment> \<open>\<open>lambda size: size / 1024 / 1024\<close>\<close>
  "megabytes sz = bind_exn (truediv sz 1024) (\<lambda>x. truediv x 1024)"

definition file_paths :: "val \<Rightarrow> exn + val" where
  \<comment> \<open>\<open>lambda file_dicts: [f['path'] for f in file_dicts]\<close>\<close>
  "file_paths file_dicts =
     bind_exn (iterate file_dicts) (\<lambda>fs.
     bind_exn (comprehension subscript_path fs) (\<lambda>ps. Inr (VList ps)))"

definition settings_map :: "(string \<times> flexget_key) list" where
  "settings_map =
    [(''name'', Name ''title''),
     (''hash'', Name ''torrent_info_hash''),
     (''num_peers'', Name ''torrent_peers''),
     (''num_seeds'', Name ''torrent_seeds''),
     (''progress'', Name ''deluge_progress''),
     (''seeding_time'', Tuple ''deluge_seed_time'' hours),
     (''private'', Name ''deluge_private''),
     (''state'', Name ''deluge_state''),
     (''eta'', Name ''deluge_eta''),
     (''ratio'', Name ''deluge_ratio''),
     (''move_on_completed_path'', Name ''deluge_movedone''),
     (''save_path'', Name ''deluge_path''),
     (''label'', Name ''deluge_label''),
     (''total_size'', Tuple ''content_size'' megabytes),
     (''files'', Tuple ''content_files'' file_paths)]"

definition extra_settings_map :: "(string \<times> flexget_key) list" where
  "extra_settings_map =
    [(''active_time'', Tuple ''active_time'' hours),
     (''compact'', Name ''compact''),
     (''distributed_copies'', Name ''distributed_copies''),
     (''download_payload_rate'', Name ''download_payload_rate''),
     (''file_progress'', Name ''file_progress''),
     (''is_auto_managed'', Name ''is_auto_managed''),
     (''is_seed'', Name ''is_seed''),
     (''max_connections'', Name ''max_connections''),
     (''max_download_speed'', Name ''max_download_speed''),
     (''max_upload_slots'', Name ''max_upload_slots''),
     (''max_upload_speed'', Name ''max_upload_speed''),
     (''message'', Name ''message''),
     (''move_on_completed'', Name ''move_on_completed''),
     (''next_announce'', Name ''next_announce''),
     (''num_files'', Name ''num_files''),
     (''num_pieces'', Name ''num_pieces''),
     (''paused'', Name ''paused''),
     (''peers'', Name ''peers''),
     (''piece_length'', Name ''piece_length''),
     (''prioritize_first_last'', Name ''prioritize_first_last''),
     (''queue'', Name ''queue''),
     (''remove_at_ratio'', Name ''remove_at_ratio''),
     (''seed_rank'', Name ''seed_rank''),
     (''stop_at_ratio'', Name ''stop_at_ratio''),
     (''stop_ratio'', Name ''stop_ratio''),
     (''total_done'', Name ''total_done''),
     (''total_payload_download'', Name ''total_payload_download''),
     (''total_payload_upload'', Name ''total_payload_upload''),
     (''total_peers'', Name ''total_peers''),
     (''total_seeds'', Name ''total_seeds''),
     (''total_uploaded'', Name ''total_uploaded''),
     (''total_wanted'', Name ''total_wanted''),
     (''tracker'', Name ''tracker''),
     (''tracker_host'', Name ''tracker_host''),
     (''tracker_status'', Name ''tracker_status''),
     (''trackers'', Name ''trackers''),
     (''upload_payload_rate'', Name ''upload_payload_rate'')]"

text \<open>
  The body of the loop over \<open>torrent_dict.items()\<close> in \<open>generate_entries\<close>:
  \<^verbatim>\<open>
  if key in self.settings_map:
      flexget_key = self.settings_map[key]
  else:
      flexget_key = self.extra_settings_map[key]
  if isinstance(flexget_key, tuple):
      flexget_key, format_func = flexget_key
      value = format_func(value)
  entry[flexget_key] = value
  \<close>
  Indexing \<open>extra_settings_map\<close> with a key it does not have raises \<open>KeyError\<close>.
\<close>

definition lookup_flexget_key :: "string \<Rightarrow> exn + flexget_key" where
  "lookup_flexget_key key =
     (case map_of settings_map key of
        Some flexget_key \<Rightarrow> Inr flexget_key
      | None \<Rightarrow>
          (case map_of extra_settings_map key of
             Some flexget_key \<Rightarrow> Inr flexget_key
           | None \<Rightarrow> Inl (Exn KeyError key)))"

definition flexget_item :: "string \<Rightarrow> val \<Rightarrow> exn + (string \<times> val)" where
  "flexget_item key value =
     bind_exn (lookup_flexget_key key) (\<lambda>flexget_key.
       case flexget_key of
         Name name \<Rightarrow> Inr (name, value)
       | Tuple name format_func \<Rightarrow> bind_exn (format_func value) (\<lambda>value'. Inr (name, value')))"

text \<open>
  The loop itself, over the items of the dict in iteration order, from the entry as the
  code before the loop left it. An exception leaves the loop (and \<open>generate_entries\<close>).
\<close>

fun torrent_dict_loop :: "entry \<Rightarrow> (string \<times> val) list \<Rightarrow> exn + entry" where
  "torrent_dict_loop entry [] = Inr entry"
| "torrent_dict_loop entry ((key, value) # rest) =
     bind_exn (flexget_item key value) (\<lambda>(name, value').
       torrent_dict_loop (entry(name \<mapsto> value')) rest)"

text \<open>\<open>Entry(deluge_id=hash, url='')\<close>\<close>

definition new_entry :: "string \<Rightarrow> entry" where
  "new_entry hash = [''deluge_id'' \<mapsto> VStr hash, ''url'' \<mapsto> VStr []]"

text \<open>The field name of a table value.\<close>

fun field_name :: "flexget_key \<Rightarrow> string" where
  "field_name (Name name) = name"
| "field_name (Tuple name format_func) = name"

text \<open>An item of the dict that the loop body takes without raising.\<close>

definition item_ok :: "string \<times> val \<Rightarrow> bool" where
  "item_ok kv = (case flexget_item (fst kv) (snd kv) of Inl e \<Rightarrow> False | Inr nv \<Rightarrow> True)"

text \<open>The field names the loop assigns for the items of a dict.\<close>

definition assigned_names :: "(string \<times> val) list \<Rightarrow> string set" where
  "assigned_names torrent_dict =
     {name. \<exists>key value value'. (key, value) \<in> set torrent_dict \<and>
        flexget_item key value = Inr (name, value')}"

section \<open>trakt_lookup.py: the lookups behind the lazy fields\<close>

text \<open>
  The lookup callables work on an entry and write to the module's logger; the state they
  thread is the entry's fields and the log. The lookup functions they are given
  (\<open>lookup_function\<close>, the getters over the Trakt API) are parameters: they read the
  entry and either return a result or raise. An exception that leaves a callable is
  \<open>Inl\<close>.
\<close>

text \<open>\<open>entry[key]\<close> on the fields of an entry.\<close>

definition getitem :: "entry \<Rightarrow> string \<Rightarrow> exn + val" where
  "getitem entry key = (case entry key of None \<Rightarrow> Inl (Exn KeyError key) | Some v \<Rightarrow> Inr v)"

text \<open>
  \<^verbatim>\<open>
  class TraktLookup(object):
      def __call__(self, entry):
          with Session() as session:
              try:
                  result = self.lookup_function(entry, session)
              except LookupError as e:
                  log.debug(e)
              else:
                  entry.update_using_map(self.field_map, result)
          return entry
  \<close>
  \<open>Entry.update_using_map\<close> is not part of these sources and is a parameter.
\<close>

definition TraktLookup_call ::
  "('fm \<Rightarrow> 'm \<Rightarrow> entry \<Rightarrow> exn + entry) \<Rightarrow> 'fm \<Rightarrow> (entry \<Rightarrow> exn + 'm) \<Rightarrow>
   entry \<times> log \<Rightarrow> exn + entry \<times> log" where
  "TraktLookup_call update_using_map field_map lookup_function st =
     (case st of (entry, lg) \<Rightarrow>
       (case lookup_function entry of
          Inl e \<Rightarrow> if is_LookupError e then Inr (entry, lg @ [(DEBUG, msg e)]) else Inl e
        | Inr result \<Rightarrow>
            bind_exn (update_using_map field_map result entry) (\<lambda>entry'. Inr (entry', lg))))"

text \<open>
  \<^verbatim>\<open>
  class TraktUserDataLookup(object):
      def __call__(self, entry):
          try:
              result = self.lookup_function(data_type=self.data_type,
                                            media_type=self.media_type, entry=entry)
          except LookupError as e:
              log.debug(e)
          else:
              entry[self.field_name] = result
          return entry
  \<close>
  Its lookup function is \<open>lazy_user_data_lookup\<close>, which logs, so it threads the log.
\<close>

definition TraktUserDataLookup_call ::
  "string \<Rightarrow> string \<Rightarrow> string \<Rightarrow> (string \<Rightarrow> string \<Rightarrow> entry \<times> log \<Rightarrow> exn + val \<times> log) \<Rightarrow>
   entry \<times> log \<Rightarrow> exn + entry \<times> log" where
  "TraktUserDataLookup_call fname data_type media_type lookup_function st =
     (case st of (entry, lg) \<Rightarrow>
       (case lookup_function data_type media_type (entry, lg) of
          Inl e \<Rightarrow> if is_LookupError e then Inr (entry, lg @ [(DEBUG, msg e)]) else Inl e
        | Inr (result, lg') \<Rightarrow> Inr (entry(fname \<mapsto> result), lg')))"

text \<open>
  \<open>self.getter_map\<close>, built in \<open>__init__\<close> from the four private getters, which call the
  Trakt API and are parameters here.
\<close>

definition getter_map ::
  "(entry \<Rightarrow> exn + 'm) \<Rightarrow> (entry \<Rightarrow> exn + 'm) \<Rightarrow> (entry \<Rightarrow> exn + 'm) \<Rightarrow> (entry \<Rightarrow> exn + 'm) \<Rightarrow>
   string \<rightharpoonup> (entry \<Rightarrow> exn + 'm)" where
  "getter_map get_series get_season get_episode get_movie =
     [''show'' \<mapsto> get_series, ''season'' \<mapsto> get_season, ''episode'' \<mapsto> get_episode,
      ''movie'' \<mapsto> get_movie]"

text \<open>
  \<^verbatim>\<open>
  def lazy_lookup(self, entry, media_type, mapping):
      with Session() as session:
          try:
              trakt_media = self.getter_map[media_type](entry, session)
          except LookupError as e:
              log.debug(e)
          else:
              entry.update_using_map(mapping, trakt_media)
      return entry
  \<close>
  The \<open>KeyError\<close> of an unknown media type is raised inside the \<open>try\<close> and is a
  \<open>LookupError\<close>.
\<close>

definition lazy_lookup ::
  "('fm \<Rightarrow> 'm \<Rightarrow> entry \<Rightarrow> exn + entry) \<Rightarrow> (string \<rightharpoonup> (entry \<Rightarrow> exn + 'm)) \<Rightarrow>
   entry \<times> log \<Rightarrow> string \<Rightarrow> 'fm \<Rightarrow> exn + entry \<times> log" where
  "lazy_lookup update_using_map getters st media_type mapping =
     (case st of (entry, lg) \<Rightarrow>
       (case (case getters media_type of
                None \<Rightarrow> Inl (Exn KeyError media_type)
              | Some getter \<Rightarrow> getter entry) of
          Inl e \<Rightarrow> if is_LookupError e then Inr (entry, lg @ [(DEBUG, msg e)]) else Inl e
        | Inr trakt_media \<Rightarrow>
            bind_exn (update_using_map mapping trakt_media entry) (\<lambda>entry'. Inr (entry', lg))))"

text \<open>
  \<^verbatim>\<open>
  def lazy_user_data_lookup(self, data_type, media_type, entry):
      try:
          lookup = self.getter_map[media_type]
          user_data_lookup = self.trakt.lookup_map[data_type][media_type]
      except KeyError:
          raise plugin.PluginError('Unknown data type="%s" or media type="%s"' % ...)
      with Session() as session:
          try:
              return user_data_lookup(lookup(entry, session), entry['title'])
          except LookupError as e:
              log.debug(e)
  \<close>
  \<open>self.trakt.lookup_map\<close> belongs to the Trakt API and is a parameter. The arguments
  of \<open>user_data_lookup\<close> are evaluated from the left. After \<open>log.debug(e)\<close> the function
  ends without a \<open>return\<close>, so it returns \<open>None\<close>.
\<close>

definition lazy_user_data_lookup ::
  "(string \<rightharpoonup> (entry \<Rightarrow> exn + 'm)) \<Rightarrow> (string \<rightharpoonup> (string \<rightharpoonup> ('m \<Rightarrow> val \<Rightarrow> exn + val))) \<Rightarrow>
   string \<Rightarrow> string \<Rightarrow> entry \<times> log \<Rightarrow> exn + val \<times> log" where
  "lazy_user_data_lookup getters lookup_map data_type media_type st =
     (case st of (entry, lg) \<Rightarrow>
       (case getters media_type of
          None \<Rightarrow> Inl (Exn PluginError ''Unknown data type or media type'')
        | Some lookup \<Rightarrow>
           (case lookup_map data_type of
              None \<Rightarrow> Inl (Exn PluginError ''Unknown data type or media type'')
            | Some by_media_type \<Rightarrow>
               (case by_media_type media_type of
                  None \<Rightarrow> Inl (Exn PluginError ''Unknown data type or media type'')
                | Some user_data_lookup \<Rightarrow>
                   (case bind_exn (lookup entry) (\<lambda>media.
                           bind_exn (getitem entry ''title'') (\<lambda>title.
                             user_data_lookup media title)) of
                      Inl e \<Rightarrow>
                        if is_LookupError e then Inr (VNone, lg @ [(DEBUG, msg e)]) else Inl e
                    | Inr result \<Rightarrow> Inr (result, lg))))))"

section \<open>The lazy fields of an entry\<close>

text \<open>
  Modelled from the spec: the class \<open>Entry\<close> of \<open>flexget.entry\<close>
  (\<open>register_lazy_func\<close>, \<open>get\<close>, \<open>update_using_map\<close>) is not part of these sources,
  which only call it. The definitions of this section follow the specification's Lazy
  Field Resolver: a record has materialized fields and a registry of lazy bindings, each
  with a set of field names, the callable registered for them and an evaluation state
  (\<open>Pending\<close>, \<open>Evaluated\<close> or \<open>Failed\<close>). The number of invocations of each binding's
  callable is recorded beside it.
\<close>

datatype eval_state = Pending | Evaluated | Failed

record lazy_binding =
  field_names :: "string list"
  resolver :: "entry \<times> log \<Rightarrow> exn + entry \<times> log"
  state :: eval_state
  invocations :: nat

record lazy_entry =
  entry_fields :: entry
  bindings :: "lazy_binding list"
  entry_log :: log

text \<open>
  Modelled from the spec: \<open>register\<close> records that reading a field of \<open>keys\<close> that is not
  materialized must first invoke the callable; it does not evaluate. The argument
  order is that of the calls \<open>entry.register_lazy_func(func, keys)\<close>.
\<close>

definition register_lazy_func ::
  "(entry \<times> log \<Rightarrow> exn + entry \<times> log) \<Rightarrow> string list \<Rightarrow> lazy_entry \<Rightarrow> lazy_entry" where
  "register_lazy_func func keys e =
     e\<lparr>bindings := bindings e @
        [\<lparr>field_names = keys, resolver = func, state = Pending, invocations = 0\<rparr>]\<rparr>"

text \<open>The first pending binding that covers a field, by its position in the registry.\<close>

fun find_binding :: "lazy_binding list \<Rightarrow> string \<Rightarrow> nat option" where
  "find_binding [] fname = None"
| "find_binding (b # bs) fname =
     (if state b = Pending \<and> fname \<in> set (field_names b) then Some 0
      else map_option Suc (find_binding bs fname))"

text \<open>
  Modelled from the spec: evaluating a binding invokes its callable once on the record.
  A normal return gives the record its new fields; an exception is the failure of the
  binding, observed at debug level, and the fields stay as they were. Either way the
  binding is no longer pending.
\<close>

definition evaluate :: "nat \<Rightarrow> lazy_entry \<Rightarrow> lazy_entry" where
  "evaluate i e =
     (let b = bindings e ! i in
      case resolver b (entry_fields e, entry_log e) of
        Inl x \<Rightarrow>
          e\<lparr>bindings := (bindings e)[i := b\<lparr>state := Failed, invocations := Suc (invocations b)\<rparr>],
            entry_log := entry_log e @ [(DEBUG, msg x)]\<rparr>
      | Inr (fs, lg) \<Rightarrow>
          e\<lparr>entry_fields := fs,
            bindings := (bindings e)[i := b\<lparr>state := Evaluated, invocations := Suc (invocations b)\<rparr>],
            entry_log := lg\<rparr>)"

datatype get_error = FieldNotFound

text \<open>
  Modelled from the spec: \<open>get(field_name, default)\<close> returns the materialized value if
  present; otherwise, if a pending binding covers the field, evaluates it and returns the
  now materialized value, or the default if the callable did not produce it. With no
  value and no default it signals \<open>FieldNotFound\<close>.
\<close>

definition get :: "string \<Rightarrow> val option \<Rightarrow> lazy_entry \<Rightarrow> (get_error + val) \<times> lazy_entry" where
  "get fname dflt e =
     (case entry_fields e fname of
        Some v \<Rightarrow> (Inr v, e)
      | None \<Rightarrow>
          (let e' = (case find_binding (bindings e) fname of
                       None \<Rightarrow> e
                     | Some i \<Rightarrow> evaluate i e)
           in (case entry_fields e' fname of
                 Some v \<Rightarrow> Inr v
               | None \<Rightarrow> (case dflt of Some d \<Rightarrow> Inr d | None \<Rightarrow> Inl FieldNotFound),
               e')))"

text \<open>A sequence of reads, each of a field name with an optional default.\<close>

fun reads :: "(string \<times> val option) list \<Rightarrow> lazy_entry \<Rightarrow> lazy_entry" where
  "reads [] e = e"
| "reads ((fname, dflt) # rest) e = reads rest (snd (get fname dflt e))"

text \<open>
  The state of the binding at position \<open>i\<close> agrees with its count: pending and never
  invoked, or no longer pending and invoked at most once.
\<close>

definition settled_or_fresh :: "nat \<Rightarrow> lazy_entry \<Rightarrow> bool" where
  "settled_or_fresh i e =
     (i < length (bindings e) \<and>
      (if state (bindings e ! i) = Pending then invocations (bindings e ! i) = 0
       else invocations (bindings e ! i) \<le> 1))"

text \<open>
  Modelled from the spec: \<open>apply_mapping\<close>, the specification's reading of
  \<open>Entry.update_using_map\<close>. For each internal name, a plain attribute name copies that
  attribute of the external object, and a pair of an attribute name and a transform
  copies the transformed attribute. An attribute the object lacks leaves the field unset
  and the mapping goes on. The specification does not say what an exception of a
  transform does; here it leaves the mapping.
\<close>

datatype mapping_spec = Attribute string | Transformed string "val \<Rightarrow> exn + val"

fun apply_mapping ::
  "(string \<times> mapping_spec) list \<Rightarrow> (string \<rightharpoonup> val) \<Rightarrow> entry \<Rightarrow> exn + entry" where
  "apply_mapping [] external_object entry = Inr entry"
| "apply_mapping ((internal_name, Attribute a) # rest) external_object entry =
     (case external_object a of
        None \<Rightarrow> apply_mapping rest external_object entry
      | Some v \<Rightarrow> apply_mapping rest external_object (entry(internal_name \<mapsto> v)))"
| "apply_mapping ((internal_name, Transformed a transform) # rest) external_object entry =
     (case external_object a of
        None \<Rightarrow> apply_mapping rest external_object entry
      | Some v \<Rightarrow>
          bind_exn (transform v) (\<lambda>v'.
            apply_mapping rest external_object (entry(internal_name \<mapsto> v'))))"

text \<open>
  Sample lookups for concrete runs: an episode found, a lookup that misses, and lookups
  whose transport fails.
\<close>

definition pilot_episode :: "entry \<Rightarrow> exn + (string \<rightharpoonup> val)" where
  "pilot_episode entry = Inr [''title'' \<mapsto> VStr ''Pilot'']"

definition lookup_miss :: "entry \<Rightarrow> exn + (string \<rightharpoonup> val)" where
  "lookup_miss entry = Inl (Exn LookupError ''No results found'')"


definition episode_fields :: "(string \<times> mapping_spec) list" where
  "episode_fields =
     [(''trakt_ep_name'', Attribute ''title''), (''trakt_ep_overview'', Attribute ''overview'')]"


definition watched_lookup :: "(string \<rightharpoonup> val) \<Rightarrow> val \<Rightarrow> exn + val" where
  "watched_lookup media title = Inr (VBool True)"

definition sample_lookup_map ::
  "string \<rightharpoonup> (string \<rightharpoonup> ((string \<rightharpoonup> val) \<Rightarrow> val \<Rightarrow> exn + val))" where
  "sample_lookup_map = [''watched'' \<mapsto> [''episode'' \<mapsto> watched_lookup]]"

definition sample_entry :: lazy_entry where
  "sample_entry = \<lparr>entry_fields = new_entry ''c0ffee'', bindings = [], entry_log = []\<rparr>"

section \<open>simple_persistence.py\<close>

text \<open>
  The class keeps its values in nested dictionaries shared by all instances. The
  objects that occur there are stored values, the module's sentinel \<open>DELETE = object()\<close>,
  the builtin type \<open>dict\<close>, and instances of \<open>dict\<close> and of \<open>defaultdict\<close> (with its
  \<open>default_factory\<close>). The keys are \<open>None\<close> or strings; the items are in insertion order.
\<close>

datatype pyobj =
    Val val
  | DELETE
  | TypeDict
  | Dict "(string option \<times> pyobj) list"
  | DefaultDict pyobj "(string option \<times> pyobj) list"

text \<open>\<open>callable(obj)\<close>: of these objects only the type \<open>dict\<close> can be called.\<close>

fun callable :: "pyobj \<Rightarrow> bool" where
  "callable TypeDict = True"
| "callable obj = False"

text \<open>\<open>obj()\<close>: \<open>dict()\<close> is a new empty dict; calling anything else raises \<open>TypeError\<close>.\<close>

fun call :: "pyobj \<Rightarrow> exn + pyobj" where
  "call TypeDict = Inr (Dict [])"
| "call obj = Inl (Exn TypeError ''object is not callable'')"

text \<open>
  \<open>defaultdict(default_factory)\<close>: the constructor checks its first argument and raises
  \<open>TypeError\<close> unless it is \<open>None\<close> or callable.
\<close>

definition defaultdict :: "pyobj \<Rightarrow> exn + pyobj" where
  "defaultdict default_factory =
     (if default_factory = Val VNone \<or> callable default_factory
      then Inr (DefaultDict default_factory [])
      else Inl (Exn TypeError ''first argument must be callable or None''))"

definition key_repr :: "string option \<Rightarrow> string" where
  "key_repr k = (case k of None \<Rightarrow> ''None'' | Some s \<Rightarrow> s)"

text \<open>
  \<open>d[k]\<close>, returning the value and the container as the lookup leaves it: a
  \<open>defaultdict\<close> without the key calls its factory and inserts the result
  (\<open>__missing__\<close>); without a factory, and for a \<open>dict\<close>, a missing key is a \<open>KeyError\<close>.
\<close>

fun obj_getitem :: "pyobj \<Rightarrow> string option \<Rightarrow> exn + pyobj \<times> pyobj" where
  "obj_getitem (Dict kvs) k =
     (case map_of kvs k of
        Some v \<Rightarrow> Inr (v, Dict kvs)
      | None \<Rightarrow> Inl (Exn KeyError (key_repr k)))"
| "obj_getitem (DefaultDict default_factory kvs) k =
     (case map_of kvs k of
        Some v \<Rightarrow> Inr (v, DefaultDict default_factory kvs)
      | None \<Rightarrow>
          if default_factory = Val VNone then Inl (Exn KeyError (key_repr k))
          else bind_exn (call default_factory) (\<lambda>v.
                 Inr (v, DefaultDict default_factory (kvs @ [(k, v)]))))"
| "obj_getitem obj k = Inl (Exn TypeError ''object is not subscriptable'')"

text \<open>\<open>d[k] = v\<close>\<close>

fun obj_setitem :: "pyobj \<Rightarrow> string option \<Rightarrow> pyobj \<Rightarrow> exn + pyobj" where
  "obj_setitem (Dict kvs) k v = Inr (Dict (AList.update k v kvs))"
| "obj_setitem (DefaultDict default_factory kvs) k v =
     Inr (DefaultDict default_factory (AList.update k v kvs))"
| "obj_setitem obj k v = Inl (Exn TypeError ''object does not support item assignment'')"

text \<open>
  \<open>k in d\<close> for the two kinds of dictionary (it never calls the factory). The other
  objects are never the store of an instance; the test is left as a \<open>TypeError\<close> there.
\<close>

fun obj_contains :: "pyobj \<Rightarrow> string option \<Rightarrow> exn + bool" where
  "obj_contains (Dict kvs) k = Inr (map_of kvs k \<noteq> None)"
| "obj_contains (DefaultDict default_factory kvs) k = Inr (map_of kvs k \<noteq> None)"
| "obj_contains obj k = Inl (Exn TypeError ''argument is not iterable'')"

text \<open>A row of the table \<open>simple_persistence\<close> (\<open>SimpleKeyValue\<close>, without id and date).\<close>

record skv =
  skv_task :: "string option"
  skv_plugin :: "string option"
  skv_key :: string
  skv_value :: val

text \<open>
  An instance is its \<open>taskname\<close> and \<open>plugin\<close> (\<open>SimplePersistence(plugin)\<close> has the
  task name \<open>None\<close>; \<open>SimpleTaskPersistence\<close> takes both from its task).
\<close>

record simple_persistence =
  taskname :: "string option"
  plugin :: "string option"

text \<open>What the methods work on: the class attribute, the table and the log.\<close>

record world =
  store_obj :: pyobj
  table :: "skv list"
  logged :: log

text \<open>
  \<^verbatim>\<open>
  class SimplePersistence(MutableMapping):
      # Stores values in store[taskname][pluginname][key] format
      class_store = defaultdict(defaultdict(dict))
  \<close>
  The class body evaluates the inner call first and passes its result, an instance, to
  the outer call.
\<close>

definition class_store :: "exn + pyobj" where
  "class_store = bind_exn (defaultdict TypeDict) (\<lambda>inner. defaultdict inner)"

text \<open>Importing the module runs the class body; the table is what the database holds.\<close>

definition import_module :: "skv list \<Rightarrow> exn + world" where
  "import_module rows =
     bind_exn class_store (\<lambda>cs. Inr \<lparr>store_obj = cs, table = rows, logged = []\<rparr>)"

text \<open>
  \<^verbatim>\<open>
  @property
  def store(self):
      return self.class_store[self.taskname][self.plugin]
  \<close>
  Both lookups may insert a default; the inner dictionary is an object held by the
  outer one, so its insertion shows there.
\<close>

definition SimplePersistence_store :: "simple_persistence \<Rightarrow> world \<Rightarrow> exn + pyobj \<times> world" where
  "SimplePersistence_store self w =
     bind_exn (obj_getitem (store_obj w) (taskname self)) (\<lambda>(by_plugin, cs).
     bind_exn (obj_getitem by_plugin (plugin self)) (\<lambda>(d, by_plugin').
     bind_exn (obj_setitem cs (taskname self) by_plugin') (\<lambda>cs'.
       Inr (d, w\<lparr>store_obj := cs'\<rparr>))))"

text \<open>
  \<open>self.store[key] = v\<close>: the store is an object held by the nested dictionaries, so
  the assignment shows in the class attribute.
\<close>

definition store_assign ::
  "simple_persistence \<Rightarrow> string \<Rightarrow> pyobj \<Rightarrow> world \<Rightarrow> exn + world" where
  "store_assign self k v w =
     bind_exn (SimplePersistence_store self w) (\<lambda>(d, w').
     bind_exn (obj_setitem d (Some k) v) (\<lambda>d'.
     bind_exn (obj_getitem (store_obj w') (taskname self)) (\<lambda>(by_plugin, cs).
     bind_exn (obj_setitem by_plugin (plugin self) d') (\<lambda>by_plugin'.
     bind_exn (obj_setitem cs (taskname self) by_plugin') (\<lambda>cs'.
       Inr (w'\<lparr>store_obj := cs'\<rparr>))))))"

text \<open>
  \<^verbatim>\<open>
  def __setitem__(self, key, value):
      log.debug('setting key %s value %s' % (key, repr(value)))
      self.store[key] = value
  \<close>
  The log message is kept without the \<open>repr\<close> of the value.
\<close>

definition SimplePersistence_setitem ::
  "simple_persistence \<Rightarrow> string \<Rightarrow> val \<Rightarrow> world \<Rightarrow> exn + world" where
  "SimplePersistence_setitem self k v w =
     store_assign self k (Val v) (w\<lparr>logged := logged w @ [(DEBUG, ''setting key '' @ k)]\<rparr>)"

text \<open>
  The query of \<open>__getitem__\<close>: the first row of the task, plugin and key. A comparison
  with \<open>None\<close> is \<open>IS NULL\<close>.
\<close>

definition query_first :: "skv list \<Rightarrow> string option \<Rightarrow> string option \<Rightarrow> string \<Rightarrow> skv option" where
  "query_first rows t p k =
     List.find (\<lambda>r. skv_task r = t \<and> skv_plugin r = p \<and> skv_key r = k) rows"

definition not_contained :: "string \<Rightarrow> exn" where
  "not_contained k = Exn KeyError (k @ '' is not contained in the simple_persistence table.'')"

text \<open>
  \<^verbatim>\<open>
  def __getitem__(self, key):
      if 'key' in self.store:
          if self.store[key] == DELETE:
              raise KeyError('%s is not contained in the simple_persistence table.' % key)
          return self.store[key]

      with Session() as session:
          skv = session.query(SimpleKeyValue).filter(SimpleKeyValue.task == self.taskname).\
              filter(SimpleKeyValue.plugin == self.plugin).filter(SimpleKeyValue.key == key).first()
          if not skv:
              raise KeyError('%s is not contained in the simple_persistence table.' % key)
          else:
              self.store[key] = skv.value
              return skv.value
  \<close>
  The membership test is on the string \<open>'key'\<close>, not on the argument. Every
  \<open>self.store\<close> evaluates the property again.
\<close>

definition SimplePersistence_getitem ::
  "simple_persistence \<Rightarrow> string \<Rightarrow> world \<Rightarrow> exn + pyobj \<times> world" where
  "SimplePersistence_getitem self k w =
     bind_exn (SimplePersistence_store self w) (\<lambda>(d, w1).
     bind_exn (obj_contains d (Some ''key'')) (\<lambda>present.
       if present then
         bind_exn (SimplePersistence_store self w1) (\<lambda>(d2, w2).
         bind_exn (obj_getitem d2 (Some k)) (\<lambda>(x, d2').
           if x = DELETE then Inl (not_contained k)
           else
             bind_exn (SimplePersistence_store self w2) (\<lambda>(d3, w3).
             bind_exn (obj_getitem d3 (Some k)) (\<lambda>(y, d3'). Inr (y, w3)))))
       else
         (case query_first (table w1) (taskname self) (plugin self) k of
            None \<Rightarrow> Inl (not_contained k)
          | Some r \<Rightarrow>
              bind_exn (store_assign self k (Val (skv_value r)) w1) (\<lambda>w2.
                Inr (Val (skv_value r), w2)))))"

text \<open>
  \<^verbatim>\<open>
  def __delitem__(self, key):
      self.store[key] = DELETE
  \<close>
\<close>

definition SimplePersistence_delitem ::
  "simple_persistence \<Rightarrow> string \<Rightarrow> world \<Rightarrow> exn + world" where
  "SimplePersistence_delitem self k w = store_assign self k DELETE w"

text \<open>
  \<^verbatim>\<open>
  def flush(self):
      """Flush all in memory key/values to database."""
      log.debug('Flushing simple persistence updates to db.')
      # TODO: the stuff
  \<close>
\<close>

definition flush :: "simple_persistence \<Rightarrow> world \<Rightarrow> exn + world" where
  "flush self w =
     Inr (w\<lparr>logged := logged w @ [(DEBUG, ''Flushing simple persistence updates to db.'')]\<rparr>)"

text \<open>
  The call sequences of the persistence properties, from a given world (the methods by
  themselves) and from the import of the module: set, flush, get; set, delete, flush,
  get; set, flush.
\<close>

definition set_flush_get_from ::
  "world \<Rightarrow> simple_persistence \<Rightarrow> string \<Rightarrow> val \<Rightarrow> exn + pyobj \<times> world" where
  "set_flush_get_from w self k v =
     bind_exn (SimplePersistence_setitem self k v w) (\<lambda>w1.
     bind_exn (flush self w1) (\<lambda>w2. SimplePersistence_getitem self k w2))"

definition set_delete_flush_get_from ::
  "world \<Rightarrow> simple_persistence \<Rightarrow> string \<Rightarrow> val \<Rightarrow> exn + pyobj \<times> world" where
  "set_delete_flush_get_from w self k v =
     bind_exn (SimplePersistence_setitem self k v w) (\<lambda>w1.
     bind_exn (SimplePersistence_delitem self k w1) (\<lambda>w2.
     bind_exn (flush self w2) (\<lambda>w3. SimplePersistence_getitem self k w3)))"

definition set_flush_from :: "world \<Rightarrow> simple_persistence \<Rightarrow> string \<Rightarrow> val \<Rightarrow> exn + world" where
  "set_flush_from w self k v =
     bind_exn (SimplePersistence_setitem self k v w) (\<lambda>w1. flush self w1)"

definition set_flush_get ::
  "skv list \<Rightarrow> simple_persistence \<Rightarrow> string \<Rightarrow> val \<Rightarrow> exn + pyobj \<times> world" where
  "set_flush_get rows self k v =
     bind_exn (import_module rows) (\<lambda>w. set_flush_get_from w self k v)"

definition set_delete_flush_get ::
  "skv list \<Rightarrow> simple_persistence \<Rightarrow> string \<Rightarrow> val \<Rightarrow> exn + pyobj \<times> world" where
  "set_delete_flush_get rows self k v =
     bind_exn (import_module rows) (\<lambda>w. set_delete_flush_get_from w self k v)"

definition set_flush :: "skv list \<Rightarrow> simple_persistence \<Rightarrow> string \<Rightarrow> val \<Rightarrow> exn + world" where
  "set_flush rows self k v =
     bind_exn (import_module rows) (\<lambda>w. set_flush_from w self k v)"


text \<open>
  For runs of the methods by themselves: an instance for the plugin \<open>p\<close>, a world in which
  the class attribute already holds an empty store for it, a world whose class attribute
  is a \<open>defaultdict\<close> with a \<open>defaultdict\<close> instance as its factory and holds the task
  name but not the plugin, and a row that the table holds for the key \<open>k\<close>.
\<close>

definition sample_instance :: simple_persistence where
  "sample_instance = \<lparr>taskname = None, plugin = Some ''p''\<rparr>"

definition populated_world :: "skv list \<Rightarrow> world" where
  "populated_world rows =
     \<lparr>store_obj = DefaultDict (Val VNone) [(None, DefaultDict TypeDict [(Some ''p'', Dict [])])],
      table = rows, logged = []\<rparr>"


definition stale_row :: skv where
  "stale_row = \<lparr>skv_task = None, skv_plugin = Some ''p'', skv_key = ''k'', skv_value = VInt 1\<rparr>"

section \<open>Properties of the label formatter\<close>











section \<open>Properties of the status dict loop\<close>

lemma names_distinct:
  "distinct (map (\<lambda>kv. field_name (snd kv)) (settings_map @ extra_settings_map))"
  by (simp add: settings_map_def extra_settings_map_def)

lemma lookup_flexget_key_map_of:
  "(lookup_flexget_key key = Inr fk) = (map_of (settings_map @ extra_settings_map) key = Some fk)"
  by (auto simp: lookup_flexget_key_def map_add_def split: option.splits)

lemma map_of_names_inj:
  assumes "distinct (map (\<lambda>kv. g (snd kv)) xs)"
    and "map_of xs k1 = Some a" and "map_of xs k2 = Some b" and "g a = g b"
  shows "k1 = k2"
proof -
  have in1: "(k1, a) \<in> set xs" and in2: "(k2, b) \<in> set xs"
    using assms(2,3) by (auto dest: map_of_SomeD)
  have "inj_on (\<lambda>kv. g (snd kv)) (set xs)"
    using assms(1) by (simp add: distinct_map)
  moreover have "(\<lambda>kv. g (snd kv)) (k1, a) = (\<lambda>kv. g (snd kv)) (k2, b)"
    using assms(4) by simp
  ultimately have "(k1, a) = (k2, b)"
    using in1 in2 by (rule inj_onD)
  then show ?thesis by simp
qed

lemma field_name_inj:
  "lookup_flexget_key k1 = Inr a \<Longrightarrow> lookup_flexget_key k2 = Inr b \<Longrightarrow>
   field_name a = field_name b \<Longrightarrow> k1 = k2"
  unfolding lookup_flexget_key_map_of
  by (rule map_of_names_inj [OF names_distinct])

lemma flexget_item_Inr:
  "flexget_item key value = Inr (name, value') \<Longrightarrow>
   \<exists>fk. lookup_flexget_key key = Inr fk \<and> field_name fk = name"
  by (auto simp: flexget_item_def bind_exn_def split: sum.splits flexget_key.splits)

lemma flexget_item_Tuple:
  "lookup_flexget_key key = Inr (Tuple name format_func) \<Longrightarrow>
   flexget_item key value = bind_exn (format_func value) (\<lambda>value'. Inr (name, value'))"
  by (simp add: flexget_item_def bind_exn_def)

lemma item_ok_iff: "item_ok (key, value) = (\<exists>nv. flexget_item key value = Inr nv)"
  by (auto simp: item_ok_def split: sum.splits)

lemma loop_other_field:
  "torrent_dict_loop entry td = Inr entry' \<Longrightarrow> name \<notin> assigned_names td \<Longrightarrow>
   entry' name = entry name"
proof (induction td arbitrary: entry)
  case Nil
  then show ?case by simp
next
  case (Cons kv td)
  obtain k v where kv: "kv = (k, v)" by (cases kv)
  from Cons.prems(1) kv obtain n w where
    it: "flexget_item k v = Inr (n, w)" and
    rest: "torrent_dict_loop (entry(n \<mapsto> w)) td = Inr entry'"
    by (auto simp: bind_exn_def split: sum.splits)
  have "n \<noteq> name" using Cons.prems(2) kv it by (auto simp: assigned_names_def)
  moreover have "name \<notin> assigned_names td"
    using Cons.prems(2) by (auto simp: assigned_names_def)
  ultimately show ?case using Cons.IH [OF rest] by simp
qed

lemma loop_sets_field:
  "distinct (map fst td) \<Longrightarrow> (key, value) \<in> set td \<Longrightarrow>
   flexget_item key value = Inr (name, value') \<Longrightarrow>
   torrent_dict_loop entry td = Inr entry' \<Longrightarrow> entry' name = Some value'"
proof (induction td arbitrary: entry)
  case Nil
  then show ?case by simp
next
  case (Cons kv td)
  obtain k v where kv: "kv = (k, v)" by (cases kv)
  from Cons.prems(4) kv obtain n w where
    it: "flexget_item k v = Inr (n, w)" and
    rest: "torrent_dict_loop (entry(n \<mapsto> w)) td = Inr entry'"
    by (auto simp: bind_exn_def split: sum.splits)
  show ?case
  proof (cases "(key, value) = (k, v)")
    case True
    then have nw: "n = name" "w = value'" using it Cons.prems(3) by auto
    have "name \<notin> assigned_names td"
    proof
      assume "name \<in> assigned_names td"
      then obtain k2 v2 w2 where k2: "(k2, v2) \<in> set td"
        and i2: "flexget_item k2 v2 = Inr (name, w2)"
        by (auto simp: assigned_names_def)
      from flexget_item_Inr [OF i2] flexget_item_Inr [OF Cons.prems(3)]
      have "k2 = key" by (auto dest: field_name_inj)
      then have "key \<in> fst ` set td" using k2 by force
      then show False using Cons.prems(1) kv True by simp
    qed
    from loop_other_field [OF rest this] nw show ?thesis by simp
  next
    case False
    then have "(key, value) \<in> set td" using Cons.prems(2) kv by auto
    moreover have "distinct (map fst td)" using Cons.prems(1) by simp
    ultimately show ?thesis using Cons.IH Cons.prems(3) rest by blast
  qed
qed

lemma loop_succeeds:
  "list_all item_ok td \<Longrightarrow> \<exists>entry'. torrent_dict_loop entry td = Inr entry'"
proof (induction td arbitrary: entry)
  case Nil
  then show ?case by simp
next
  case (Cons kv td)
  obtain k v where kv: "kv = (k, v)" by (cases kv)
  from Cons.prems kv obtain n w where it: "flexget_item k v = Inr (n, w)"
    by (auto simp: item_ok_iff)
  from Cons.prems have "list_all item_ok td" by simp
  then have "\<exists>entry'. torrent_dict_loop (entry(n \<mapsto> w)) td = Inr entry'"
    by (rule Cons.IH)
  then show ?case using it kv by (simp add: bind_exn_def)
qed

lemma loop_dom:
  "torrent_dict_loop entry td = Inr entry' \<Longrightarrow> dom entry' = dom entry \<union> assigned_names td"
proof (induction td arbitrary: entry)
  case Nil
  then show ?case by (simp add: assigned_names_def)
next
  case (Cons kv td)
  obtain k v where kv: "kv = (k, v)" by (cases kv)
  from Cons.prems kv obtain n w where
    it: "flexget_item k v = Inr (n, w)" and
    rest: "torrent_dict_loop (entry(n \<mapsto> w)) td = Inr entry'"
    by (auto simp: bind_exn_def split: sum.splits)
  have "assigned_names (kv # td) = insert n (assigned_names td)"
    using it kv by (auto simp: assigned_names_def)
  then show ?case using Cons.IH [OF rest] by auto
qed

lemma loop_raises:
  "list_all item_ok pre \<Longrightarrow> flexget_item key value = Inl e \<Longrightarrow>
   torrent_dict_loop entry (pre @ (key, value) # post) = Inl e"
proof (induction pre arbitrary: entry)
  case Nil
  then show ?case by (simp add: bind_exn_def)
next
  case (Cons kv pre)
  obtain k v where kv: "kv = (k, v)" by (cases kv)
  from Cons.prems kv obtain n w where it: "flexget_item k v = Inr (n, w)"
    by (auto simp: item_ok_iff)
  from Cons.prems have "list_all item_ok pre" by simp
  then have "torrent_dict_loop (entry(n \<mapsto> w)) (pre @ (key, value) # post) = Inl e"
    using Cons.prems(2) by (rule Cons.IH)
  then show ?case using it kv by (simp add: bind_exn_def)
qed

lemma unmapped_key:
  "map_of settings_map key = None \<Longrightarrow> map_of extra_settings_map key = None \<Longrightarrow>
   flexget_item key value = Inl (Exn KeyError key)"
  by (simp add: flexget_item_def lookup_flexget_key_def bind_exn_def)

text \<open>
  C5. A table value that is a pair of a field name and a format function puts
  \<open>format_func(value)\<close> into that field: for a status dict (its keys distinct) whose
  items the loop body all takes, the loop returns an entry whose field \<open>name\<close> holds the
  transformed value of the key mapped to \<open>(name, format_func)\<close>. In particular
  \<open>seeding_time = 7200\<close> gives \<open>deluge_seed_time = 2.0\<close>.
\<close>

theorem transform_materialized:
  "(distinct (map fst torrent_dict) \<and> list_all item_ok torrent_dict \<and>
    (key, value) \<in> set torrent_dict \<and>
    lookup_flexget_key key = Inr (Tuple name format_func) \<longrightarrow>
    (\<exists>entry' value'. format_func value = Inr value' \<and>
       torrent_dict_loop entry torrent_dict = Inr entry' \<and> entry' name = Some value')) \<and>
   (\<exists>entry'. torrent_dict_loop entry [(''seeding_time'', VInt 7200)] = Inr entry' \<and>
       entry' ''deluge_seed_time'' = Some (VFloat 2))"
proof (intro conjI impI)
  assume a: "distinct (map fst torrent_dict) \<and> list_all item_ok torrent_dict \<and>
    (key, value) \<in> set torrent_dict \<and>
    lookup_flexget_key key = Inr (Tuple name format_func)"
  then obtain entry' where run: "torrent_dict_loop entry torrent_dict = Inr entry'"
    using loop_succeeds by blast
  from a have "item_ok (key, value)" by (auto simp: list_all_iff)
  then obtain nv where "flexget_item key value = Inr nv" by (auto simp: item_ok_iff)
  with a obtain value' where f: "format_func value = Inr value'"
    and it: "flexget_item key value = Inr (name, value')"
    by (auto simp: flexget_item_Tuple bind_exn_def split: sum.splits)
  from a it run have "entry' name = Some value'"
    by (blast intro: loop_sets_field)
  with f run show "\<exists>entry' value'. format_func value = Inr value' \<and>
       torrent_dict_loop entry torrent_dict = Inr entry' \<and> entry' name = Some value'"
    by blast
next
  show "\<exists>entry'. torrent_dict_loop entry [(''seeding_time'', VInt 7200)] = Inr entry' \<and>
       entry' ''deluge_seed_time'' = Some (VFloat 2)"
    by (simp add: flexget_item_def lookup_flexget_key_def settings_map_def bind_exn_def
        hours_def)
qed

theorem transform_materialized_witness:
  "\<exists>entry'. torrent_dict_loop (new_entry ''c0ffee'')
      [(''name'', VStr ''Some.Show.S01E01''), (''total_size'', VInt 2097152),
       (''seeding_time'', VFloat 5400)] = Inr entry' \<and>
     entry' ''content_size'' = Some (VFloat 2)"
proof -
  let ?td = "[(''name'', VStr ''Some.Show.S01E01''), (''total_size'', VInt 2097152),
       (''seeding_time'', VFloat 5400)]"
  have h: "distinct (map fst ?td) \<and> list_all item_ok ?td \<and>
    (''total_size'', VInt 2097152) \<in> set ?td \<and>
    lookup_flexget_key ''total_size'' = Inr (Tuple ''content_size'' megabytes)"
    by (simp add: item_ok_def flexget_item_def lookup_flexget_key_def settings_map_def
        bind_exn_def hours_def megabytes_def)
  have m: "megabytes (VInt 2097152) = Inr (VFloat 2)"
    by (simp add: megabytes_def bind_exn_def)
  from transform_materialized [of ?td "''total_size''" "VInt 2097152" "''content_size''"
      megabytes "new_entry ''c0ffee''"] h m
  show ?thesis by auto
qed

text \<open>
  C4 as stated fails: a key of the status dict that neither table has raises
  \<open>KeyError\<close> out of the loop, and an exception of a format function is not caught
  for that item but ends the loop as well.
\<close>

theorem unmapped_key_counterexample:
  "torrent_dict_loop (new_entry ''c0ffee'') [(''name'', VStr ''t''), (''bogus'', VInt 1)]
     = Inl (Exn KeyError ''bogus'') \<and>
   torrent_dict_loop (new_entry ''c0ffee'') [(''seeding_time'', VNone), (''name'', VStr ''t'')]
     = Inl (Exn TypeError ''unsupported operand type(s) for /'')"
  by (simp add: flexget_item_def lookup_flexget_key_def settings_map_def
      extra_settings_map_def bind_exn_def hours_def)

text \<open>
  C4, amended. When every item of the status dict has a table entry and its format
  function (if any) succeeds, the loop returns an entry in which exactly the fields of
  the items present are added, every other field being as before: a table entry whose
  key the dict lacks leaves its field unset, without error. The first item whose key
  is in neither table raises \<open>KeyError\<close>, and the first item whose format function
  raises ends the loop with that exception.
\<close>

theorem torrent_dict_loop_outcome:
  "(list_all item_ok torrent_dict \<longrightarrow>
      (\<exists>entry'. torrent_dict_loop entry torrent_dict = Inr entry' \<and>
         dom entry' = dom entry \<union> assigned_names torrent_dict \<and>
         (\<forall>name. name \<notin> assigned_names torrent_dict \<longrightarrow> entry' name = entry name))) \<and>
   (list_all item_ok pre \<and> map_of settings_map key = None \<and>
    map_of extra_settings_map key = None \<longrightarrow>
      torrent_dict_loop entry (pre @ (key, value) # post) = Inl (Exn KeyError key)) \<and>
   (list_all item_ok pre2 \<and> lookup_flexget_key key2 = Inr (Tuple name2 format_func) \<and>
    format_func value2 = Inl e \<longrightarrow>
      torrent_dict_loop entry (pre2 @ (key2, value2) # post2) = Inl e)"
proof (intro conjI impI)
  assume "list_all item_ok torrent_dict"
  then obtain entry' where run: "torrent_dict_loop entry torrent_dict = Inr entry'"
    using loop_succeeds by blast
  then show "\<exists>entry'. torrent_dict_loop entry torrent_dict = Inr entry' \<and>
         dom entry' = dom entry \<union> assigned_names torrent_dict \<and>
         (\<forall>name. name \<notin> assigned_names torrent_dict \<longrightarrow> entry' name = entry name)"
    using loop_dom [OF run] loop_other_field [OF run] by blast
next
  assume a: "list_all item_ok pre \<and> map_of settings_map key = None \<and>
    map_of extra_settings_map key = None"
  then have "flexget_item key value = Inl (Exn KeyError key)"
    by (simp add: unmapped_key)
  with a show "torrent_dict_loop entry (pre @ (key, value) # post) = Inl (Exn KeyError key)"
    by (simp add: loop_raises)
next
  assume a: "list_all item_ok pre2 \<and> lookup_flexget_key key2 = Inr (Tuple name2 format_func) \<and>
    format_func value2 = Inl e"
  then have "flexget_item key2 value2 = Inl e"
    by (simp add: flexget_item_Tuple bind_exn_def)
  with a show "torrent_dict_loop entry (pre2 @ (key2, value2) # post2) = Inl e"
    by (simp add: loop_raises)
qed

theorem torrent_dict_loop_outcome_witness:
  "(\<exists>entry'. torrent_dict_loop (new_entry ''c0ffee'')
        [(''name'', VStr ''t''), (''ratio'', VFloat 3)] = Inr entry' \<and>
      entry' ''deluge_seed_time'' = None \<and> entry' ''url'' = Some (VStr [])) \<and>
   torrent_dict_loop (new_entry ''c0ffee'')
      ([(''name'', VStr ''t'')] @ (''bogus'', VInt 1) # [(''ratio'', VFloat 3)])
     = Inl (Exn KeyError ''bogus'') \<and>
   torrent_dict_loop (new_entry ''c0ffee'')
      ([(''name'', VStr ''t'')] @ (''files'', VInt 3) # [(''ratio'', VFloat 3)])
     = Inl (Exn TypeError ''object is not iterable'')"
proof -
  let ?td = "[(''name'', VStr ''t''), (''ratio'', VFloat 3)]"
  have ok: "list_all item_ok ?td" "list_all item_ok [(''name'', VStr ''t'')]"
    by (simp_all add: item_ok_def flexget_item_def lookup_flexget_key_def settings_map_def
        bind_exn_def)
  have none: "map_of settings_map ''bogus'' = None \<and> map_of extra_settings_map ''bogus'' = None"
    by (simp add: settings_map_def extra_settings_map_def)
  have files: "lookup_flexget_key ''files'' = Inr (Tuple ''content_files'' file_paths) \<and>
      file_paths (VInt 3) = Inl (Exn TypeError ''object is not iterable'')"
    by (simp add: lookup_flexget_key_def settings_map_def file_paths_def bind_exn_def)
  have names: "''deluge_seed_time'' \<notin> assigned_names ?td \<and> ''url'' \<notin> assigned_names ?td"
    by (auto simp: assigned_names_def flexget_item_def lookup_flexget_key_def settings_map_def
        bind_exn_def)
  have ne: "new_entry ''c0ffee'' ''deluge_seed_time'' = None \<and>
      new_entry ''c0ffee'' ''url'' = Some (VStr [])"
    by (simp add: new_entry_def)
  from torrent_dict_loop_outcome [of ?td "new_entry ''c0ffee''" "[(''name'', VStr ''t'')]"
      "''bogus''" "VInt 1" "[(''ratio'', VFloat 3)]" "[(''name'', VStr ''t'')]" "''files''"
      "''content_files''" file_paths "VInt 3" "Exn TypeError ''object is not iterable''"
      "[(''ratio'', VFloat 3)]"] ok none files names ne
  show ?thesis by (simp only: simp_thms) metis
qed

section \<open>Properties of the lookups\<close>



lemma lazy_lookup_raises:
  "getters media_type = Some getter \<Longrightarrow> getter entry = Inl e \<Longrightarrow>
   lazy_lookup update_using_map getters (entry, lg) media_type mapping =
     (if is_LookupError e then Inr (entry, lg @ [(DEBUG, msg e)]) else Inl e)"
  by (simp add: lazy_lookup_def)

lemma lazy_user_data_lookup_raises:
  "getters media_type = Some lookup \<Longrightarrow> lookup_map data_type = Some by_media_type \<Longrightarrow>
   by_media_type media_type = Some user_data_lookup \<Longrightarrow> lookup entry = Inl e \<Longrightarrow>
   lazy_user_data_lookup getters lookup_map data_type media_type (entry, lg) =
     (if is_LookupError e then Inr (VNone, lg @ [(DEBUG, msg e)]) else Inl e)"
  by (simp add: lazy_user_data_lookup_def bind_exn_def)

text \<open>
  As the plugin wires it, the lookup function of \<open>TraktUserDataLookup\<close> is
  \<open>lazy_user_data_lookup\<close>, which catches the \<open>LookupError\<close> of the Trakt lookup
  itself and returns \<open>None\<close>: the handler of the callable is then not reached and the
  field is assigned \<open>None\<close>.
\<close>

lemma user_data_field_None:
  "getters media_type = Some lookup \<Longrightarrow> lookup_map data_type = Some by_media_type \<Longrightarrow>
   by_media_type media_type = Some user_data_lookup \<Longrightarrow> lookup entry = Inl e \<Longrightarrow>
   is_LookupError e \<Longrightarrow>
   TraktUserDataLookup_call fname data_type media_type
       (lazy_user_data_lookup getters lookup_map) (entry, lg) =
     Inr (entry(fname \<mapsto> VNone), lg @ [(DEBUG, msg e)])"
  by (simp add: TraktUserDataLookup_call_def lazy_user_data_lookup_raises)

lemma lazy_user_data_lookup_no_LookupError:
  "lazy_user_data_lookup getters lookup_map data_type media_type st = Inl e \<Longrightarrow>
   \<not> is_LookupError e"
  by (auto simp: lazy_user_data_lookup_def split: prod.splits option.splits sum.splits if_splits)

text \<open>
  C2 fails on the code for the user data bindings. A miss of the Trakt lookup behind
  \<open>TraktUserDataLookup\<close> is caught inside \<open>lazy_user_data_lookup\<close>, the only lookup
  function it is ever given, so the callable's own handler is not reached and the field
  is assigned \<open>None\<close>. \<open>TraktLookup\<close> on the same miss leaves the entry as it was.
\<close>

theorem user_data_miss_sets_None:
  "TraktUserDataLookup_call ''trakt_watched'' ''watched'' ''episode''
       (lazy_user_data_lookup (getter_map lookup_miss lookup_miss lookup_miss lookup_miss)
          sample_lookup_map)
       (new_entry ''c0ffee'', []) =
     Inr ((new_entry ''c0ffee'')(''trakt_watched'' \<mapsto> VNone), [(DEBUG, ''No results found'')]) \<and>
   TraktLookup_call apply_mapping episode_fields lookup_miss (new_entry ''c0ffee'', []) =
     Inr (new_entry ''c0ffee'', [(DEBUG, ''No results found'')])"
  by (simp add: TraktUserDataLookup_call_def lazy_user_data_lookup_def getter_map_def
      sample_lookup_map_def lookup_miss_def TraktLookup_call_def bind_exn_def)

section \<open>Properties of the lazy fields\<close>

lemma find_binding_Some:
  "find_binding bs fname = Some i \<Longrightarrow>
   i < length bs \<and> state (bs ! i) = Pending \<and> fname \<in> set (field_names (bs ! i))"
proof (induction bs arbitrary: i)
  case Nil
  then show ?case by simp
next
  case (Cons b bs)
  show ?case
  proof (cases "state b = Pending \<and> fname \<in> set (field_names b)")
    case True
    with Cons.prems show ?thesis by simp
  next
    case False
    with Cons.prems obtain j where j: "find_binding bs fname = Some j" "i = Suc j"
      by auto
    from Cons.IH [OF j(1)] j(2) show ?thesis by simp
  qed
qed

lemma find_binding_append:
  "find_binding bs fname = None \<Longrightarrow>
   find_binding (bs @ [b]) fname =
     (if state b = Pending \<and> fname \<in> set (field_names b) then Some (length bs) else None)"
  by (induction bs) (auto split: if_splits)

lemma evaluate_length: "length (bindings (evaluate i e)) = length (bindings e)"
  by (simp add: evaluate_def Let_def split: sum.splits prod.splits)

lemma evaluate_other:
  "j \<noteq> i \<Longrightarrow> bindings (evaluate i e) ! j = bindings e ! j"
  by (simp add: evaluate_def Let_def split: sum.splits prod.splits)

lemma evaluate_self:
  "i < length (bindings e) \<Longrightarrow>
   invocations (bindings (evaluate i e) ! i) = Suc (invocations (bindings e ! i)) \<and>
   state (bindings (evaluate i e) ! i) \<noteq> Pending \<and>
   resolver (bindings (evaluate i e) ! i) = resolver (bindings e ! i)"
  by (simp add: evaluate_def Let_def split: sum.splits prod.splits)

lemma get_length: "length (bindings (snd (get fname dflt e))) = length (bindings e)"
  by (simp add: get_def Let_def evaluate_length split: option.splits)

lemma get_settled:
  "j < length (bindings e) \<Longrightarrow> state (bindings e ! j) \<noteq> Pending \<Longrightarrow>
   bindings (snd (get fname dflt e)) ! j = bindings e ! j"
proof (cases "entry_fields e fname")
  case (Some v)
  then show ?thesis by (simp add: get_def)
next
  case None
  assume j: "j < length (bindings e)" "state (bindings e ! j) \<noteq> Pending"
  show ?thesis
  proof (cases "find_binding (bindings e) fname")
    case n: None
    with None show ?thesis by (simp add: get_def Let_def)
  next
    case (Some i)
    from find_binding_Some [OF Some] j have "j \<noteq> i" by auto
    with None Some show ?thesis by (simp add: get_def Let_def evaluate_other)
  qed
qed

lemma reads_settled:
  "j < length (bindings e) \<Longrightarrow> state (bindings e ! j) \<noteq> Pending \<Longrightarrow>
   bindings (reads rs e) ! j = bindings e ! j"
proof (induction rs arbitrary: e)
  case Nil
  then show ?case by simp
next
  case (Cons r rs)
  obtain fname dflt where r: "r = (fname, dflt)" by (cases r)
  let ?e = "snd (get fname dflt e)"
  have same: "bindings ?e ! j = bindings e ! j"
    using Cons.prems by (rule get_settled)
  have "j < length (bindings ?e)" "state (bindings ?e ! j) \<noteq> Pending"
    using Cons.prems same by (simp_all add: get_length)
  then have "bindings (reads rs ?e) ! j = bindings ?e ! j" by (rule Cons.IH)
  with same r show ?case by simp
qed

lemma get_invokes:
  assumes "find_binding (bindings e) fname = Some i" and "entry_fields e fname = None"
  shows "invocations (bindings (snd (get fname dflt e)) ! i) = Suc (invocations (bindings e ! i)) \<and>
         state (bindings (snd (get fname dflt e)) ! i) \<noteq> Pending \<and>
         resolver (bindings (snd (get fname dflt e)) ! i) = resolver (bindings e ! i)"
proof -
  from find_binding_Some [OF assms(1)] have "i < length (bindings e)" by simp
  from evaluate_self [OF this] assms show ?thesis by (simp add: get_def Let_def)
qed

lemma get_settled_or_fresh:
  assumes "settled_or_fresh i e"
  shows "settled_or_fresh i (snd (get fname dflt e))"
proof (cases "entry_fields e fname")
  case (Some v)
  with assms show ?thesis by (simp add: get_def)
next
  case None
  show ?thesis
  proof (cases "find_binding (bindings e) fname")
    case n: None
    with None assms show ?thesis by (simp add: get_def Let_def)
  next
    case (Some j)
    have e': "snd (get fname dflt e) = evaluate j e"
      using None Some by (simp add: get_def Let_def)
    show ?thesis
    proof (cases "j = i")
      case True
      from find_binding_Some [OF Some] True
      have "i < length (bindings e)" "state (bindings e ! i) = Pending" by simp_all
      with assms have "invocations (bindings e ! i) = 0"
        by (simp add: settled_or_fresh_def)
      with evaluate_self [OF \<open>i < length (bindings e)\<close>] True e' \<open>i < length (bindings e)\<close>
      show ?thesis by (simp add: settled_or_fresh_def evaluate_length)
    next
      case False
      then have "bindings (evaluate j e) ! i = bindings e ! i"
        by (simp add: evaluate_other)
      with assms e' show ?thesis
        by (auto simp: settled_or_fresh_def evaluate_length split: if_splits)
    qed
  qed
qed

lemma reads_settled_or_fresh:
  "settled_or_fresh i e \<Longrightarrow> settled_or_fresh i (reads rs e)"
proof (induction rs arbitrary: e)
  case Nil
  then show ?case by simp
next
  case (Cons r rs)
  obtain fname dflt where r: "r = (fname, dflt)" by (cases r)
  from Cons.prems have "settled_or_fresh i (snd (get fname dflt e))"
    by (rule get_settled_or_fresh)
  then have "settled_or_fresh i (reads rs (snd (get fname dflt e)))" by (rule Cons.IH)
  with r show ?case by simp
qed

lemma register_fresh:
  "settled_or_fresh (length (bindings e)) (register_lazy_func func keys e)"
  by (simp add: settled_or_fresh_def register_lazy_func_def)

lemma at_most_once:
  "invocations (bindings (reads rs (register_lazy_func func keys e)) ! length (bindings e)) \<le> 1"
proof -
  have "settled_or_fresh (length (bindings e)) (reads rs (register_lazy_func func keys e))"
    using register_fresh by (rule reads_settled_or_fresh)
  then show ?thesis by (auto simp: settled_or_fresh_def split: if_splits)
qed

text \<open>
  C1. A binding registered for the field names \<open>keys\<close> with the callable \<open>func\<close> has not
  been invoked when it is registered, and no sequence of reads invokes it more than
  once. Reading a field of \<open>keys\<close> that is neither materialized nor covered by an earlier
  pending binding invokes \<open>func\<close> exactly once, and after any further sequence of reads
  the count is still one.
\<close>

theorem lazy_binding_invoked_once:
  "invocations (bindings (register_lazy_func func keys e) ! length (bindings e)) = 0 \<and>
   invocations (bindings (reads rs0 (register_lazy_func func keys e)) ! length (bindings e)) \<le> 1 \<and>
   (fname \<in> set keys \<and> entry_fields e fname = None \<and>
    find_binding (bindings e) fname = None \<longrightarrow>
      invocations (bindings (snd (get fname dflt (register_lazy_func func keys e)))
         ! length (bindings e)) = 1 \<and>
      invocations (bindings (reads rs (snd (get fname dflt (register_lazy_func func keys e))))
         ! length (bindings e)) = 1 \<and>
      resolver (bindings (reads rs (snd (get fname dflt (register_lazy_func func keys e))))
         ! length (bindings e)) = func)"
proof (intro conjI impI)
  let ?r = "register_lazy_func func keys e"
  let ?i = "length (bindings e)"
  let ?e1 = "snd (get fname dflt ?r)"
  have b: "bindings ?r ! ?i =
      \<lparr>field_names = keys, resolver = func, state = Pending, invocations = 0\<rparr>"
    by (simp add: register_lazy_func_def)
  then show "invocations (bindings ?r ! ?i) = 0" by simp
  show "invocations (bindings (reads rs0 ?r) ! ?i) \<le> 1" by (rule at_most_once)
  assume a: "fname \<in> set keys \<and> entry_fields e fname = None \<and>
    find_binding (bindings e) fname = None"
  have f: "find_binding (bindings ?r) fname = Some ?i"
    using a by (simp add: register_lazy_func_def find_binding_append)
  have n: "entry_fields ?r fname = None"
    using a by (simp add: register_lazy_func_def)
  from get_invokes [OF f n, of dflt] b
  have one: "invocations (bindings ?e1 ! ?i) = 1" "state (bindings ?e1 ! ?i) \<noteq> Pending"
    "resolver (bindings ?e1 ! ?i) = func"
    by simp_all
  have "?i < length (bindings ?e1)"
    by (simp add: get_length register_lazy_func_def)
  then have "bindings (reads rs ?e1) ! ?i = bindings ?e1 ! ?i"
    using one(2) by (rule reads_settled)
  with one show "invocations (bindings ?e1 ! ?i) = 1"
    "invocations (bindings (reads rs ?e1) ! ?i) = 1"
    "resolver (bindings (reads rs ?e1) ! ?i) = func"
    by simp_all
qed

theorem lazy_binding_invoked_once_witness:
  "invocations (bindings (reads [(''trakt_ep_overview'', None), (''trakt_ep_name'', None)]
      (snd (get ''trakt_ep_name'' None
         (register_lazy_func (TraktLookup_call apply_mapping episode_fields pilot_episode)
            [''trakt_ep_name'', ''trakt_ep_overview''] sample_entry)))) ! 0) = 1"
proof -
  have h: "''trakt_ep_name'' \<in> set [''trakt_ep_name'', ''trakt_ep_overview''] \<and>
    entry_fields sample_entry ''trakt_ep_name'' = None \<and>
    find_binding (bindings sample_entry) ''trakt_ep_name'' = None"
    by (simp add: sample_entry_def new_entry_def)
  have l: "length (bindings sample_entry) = 0" by (simp add: sample_entry_def)
  from lazy_binding_invoked_once [of "TraktLookup_call apply_mapping episode_fields pilot_episode"
      "[''trakt_ep_name'', ''trakt_ep_overview'']" sample_entry "[]" "''trakt_ep_name''" None
      "[(''trakt_ep_overview'', None), (''trakt_ep_name'', None)]"] h l
  show ?thesis by simp
qed





section \<open>Properties of the persistence shim\<close>

lemma class_store_raises:
  "class_store = Inl (Exn TypeError ''first argument must be callable or None'')"
  by (simp add: class_store_def defaultdict_def bind_exn_def)

lemma import_module_raises:
  "import_module rows = Inl (Exn TypeError ''first argument must be callable or None'')"
  by (simp add: import_module_def class_store_raises bind_exn_def)



text \<open>
  C6 fails on the code. After the import of the module the sequence set, flush, get ends
  in the \<open>TypeError\<close> of the class attribute for every input. The methods by themselves,
  on a store that exists, do not return the value either: \<open>flush\<close> writes nothing and
  \<open>__getitem__\<close> tests the store for the string \<open>'key'\<close>, so the get of another key
  queries the table and raises \<open>KeyError\<close>.
\<close>

theorem set_flush_get_raises:
  "set_flush_get rows self k v =
     Inl (Exn TypeError ''first argument must be callable or None'') \<and>
   set_flush_get_from (populated_world []) sample_instance ''k'' (VInt 1) =
     Inl (not_contained ''k'')"
  by (simp add: set_flush_get_def import_module_raises set_flush_get_from_def
      SimplePersistence_setitem_def SimplePersistence_getitem_def SimplePersistence_store_def
      store_assign_def flush_def query_first_def populated_world_def sample_instance_def
      bind_exn_def)

text \<open>
  C7 fails on the code. After the import of the module the sequence set, delete, flush,
  get ends in the \<open>TypeError\<close> of the class attribute, not in \<open>KeyError\<close>. The methods by
  themselves, on a store that exists and a table that holds a row for the key, return
  the value of that row: the tombstone is not consulted (the store is tested for the
  string \<open>'key'\<close>) and is overwritten by the value.
\<close>

theorem set_delete_flush_get_resurrects:
  "set_delete_flush_get rows self k v =
     Inl (Exn TypeError ''first argument must be callable or None'') \<and>
   map_sum id fst
     (set_delete_flush_get_from (populated_world [stale_row]) sample_instance ''k'' (VInt 1)) =
     Inr (Val (VInt 1))"
  by (simp add: set_delete_flush_get_def import_module_raises set_delete_flush_get_from_def
      SimplePersistence_setitem_def SimplePersistence_getitem_def SimplePersistence_delitem_def
      SimplePersistence_store_def store_assign_def flush_def query_first_def
      populated_world_def sample_instance_def stale_row_def bind_exn_def)

text \<open>
  C8 fails on the code in its first half. \<open>flush\<close> only logs: the table and the store are
  what they were, so a pending write is not committed (and nothing is ever pending after
  the import of the module, which raises). That it changes neither store nor table when
  nothing is pending holds for the same reason.
\<close>

theorem flush_commits_nothing:
  "set_flush rows self k v = Inl (Exn TypeError ''first argument must be callable or None'') \<and>
   map_sum id table (flush self w) = Inr (table w) \<and>
   map_sum id store_obj (flush self w) = Inr (store_obj w) \<and>
   map_sum id table (set_flush_from (populated_world []) sample_instance ''k'' (VInt 1)) = Inr [] \<and>
   map_sum id store_obj (set_flush_from (populated_world []) sample_instance ''k'' (VInt 1)) =
     Inr (DefaultDict (Val VNone)
       [(None, DefaultDict TypeDict [(Some ''p'', Dict [(Some ''k'', Val (VInt 1))])])])"
  by (simp add: set_flush_def import_module_raises set_flush_from_def
      SimplePersistence_setitem_def SimplePersistence_store_def store_assign_def flush_def
      populated_world_def sample_instance_def bind_exn_def)

end
